theory Spec2Isabelle
  imports Complex_Main
begin

section \<open>Data model of \<^verbatim>\<open>triangle_mesh.hpp\<close>\<close>

text \<open>
  A \<^verbatim>\<open>double\<close> is modelled as a \<open>real\<close>: rounding, infinities and NaN are outside
  the model. The concrete inputs used below are chosen so that the IEEE computation takes
  the same branches as the real one. The fields \<^verbatim>\<open>x, y, z\<close> of \<^verbatim>\<open>Point\<close> are called
  \<open>px, py, pz\<close>.
\<close>

record Point =
  px :: real
  py :: real
  pz :: real

record Triangle =
  vertices :: "Point list"
  facet_normal :: Point

record TriangleMesh =
  triangles :: "Triangle list"
  triangle_count :: int
  name :: string

text \<open>
  Every failure of the source is a \<^verbatim>\<open>runtime_error\<close> with a message; one constructor
  per message. \<open>StdOutOfRange\<close> is the \<^verbatim>\<open>std::out_of_range\<close> of \<^verbatim>\<open>std::stod\<close>, which
  no handler of the source catches.
\<close>

datatype error =
    DegenerateVector        \<comment> \<open>unit_vector: tried to normalized Point(0, 0, 0)\<close>
  | TooManyVertices         \<comment> \<open>add_vertex: tried to add fourth vertex\<close>
  | InsufficientVertices    \<comment> \<open>calculate_facet_normal: not enough vertices\<close>
  | InvalidTriangle         \<comment> \<open>add_triangle: tried to add an invalid triangle\<close>
  | CoordinateParseError    \<comment> \<open>parse_coordinates: could not parse coordinates\<close>
  | NoSolidName             \<comment> \<open>OUTSIDE: could not parse solid's name\<close>
  | FacetOrEndsolidExpected \<comment> \<open>SOLID: keyword facet or endsolid expected\<close>
  | FacetNormalIncomplete   \<comment> \<open>FACET: double keyword facet normal is not complete\<close>
  | OuterLoopIncomplete     \<comment> \<open>NORMAL_COORD, OUTER: keyword outer loop not complete\<close>
  | InvalidTriangleAtEndloop \<comment> \<open>LOOP: tried to create invalid triangle\<close>
  | InvalidLoopSegment      \<comment> \<open>LOOP: invalid outer loop segment\<close>
  | UnterminatedSolid       \<comment> \<open>after the loop: solid segment was never ended\<close>
  | StdOutOfRange           \<comment> \<open>std::out_of_range escaping from std::stod\<close>

text \<open>The messages that report a token the current state does not accept.\<close>

fun grammar_violation :: "error \<Rightarrow> bool" where
  "grammar_violation NoSolidName = True"
| "grammar_violation FacetOrEndsolidExpected = True"
| "grammar_violation FacetNormalIncomplete = True"
| "grammar_violation OuterLoopIncomplete = True"
| "grammar_violation InvalidLoopSegment = True"
| "grammar_violation _ = False"

section \<open>Geometric primitives\<close>

definition EPS :: real where
  "EPS = 0.001"

definition point_sub :: "Point \<Rightarrow> Point \<Rightarrow> Point" where
  "point_sub a p = \<lparr>px = px a - px p, py = py a - py p, pz = pz a - pz p\<rparr>"

text \<open>\<^verbatim>\<open>a == p\<close> of the source, with \<open>a\<close> the object and \<open>p\<close> the argument.\<close>

definition point_eq :: "Point \<Rightarrow> Point \<Rightarrow> bool" where
  "point_eq a p \<longleftrightarrow>
     \<bar>px p - px a\<bar> < EPS \<and> \<bar>py p - py a\<bar> < EPS \<and> \<bar>pz p - pz a\<bar> < EPS"

definition point_neq :: "Point \<Rightarrow> Point \<Rightarrow> bool" where
  "point_neq a p \<longleftrightarrow> \<not> point_eq a p"

definition cross_product :: "Point \<Rightarrow> Point \<Rightarrow> Point" where
  "cross_product p q =
     \<lparr>px = py p * pz q - pz p * py q,
      py = pz p * px q - px p * pz q,
      pz = px p * py q - py p * px q\<rparr>"

definition norm_pt :: "Point \<Rightarrow> real" where
  "norm_pt p = sqrt (px p * px p + py p * py p + pz p * pz p)"

definition unit_vector :: "Point \<Rightarrow> error + Point" where
  "unit_vector p =
     (let pnorm = norm_pt p in
      if \<bar>pnorm\<bar> < EPS then Inl DegenerateVector
      else Inr \<lparr>px = px p / pnorm, py = py p / pnorm, pz = pz p / pnorm\<rparr>)"

section \<open>Triangle\<close>

definition Triangle_new :: Triangle where
  "Triangle_new = \<lparr>vertices = [], facet_normal = \<lparr>px = 0, py = 0, pz = 0\<rparr>\<rparr>"

definition add_vertex :: "Triangle \<Rightarrow> Point \<Rightarrow> error + Triangle" where
  "add_vertex t v =
     (if length (vertices t) < 3 then Inr (t\<lparr>vertices := vertices t @ [v]\<rparr>)
      else Inl TooManyVertices)"

definition clear_vertices :: "Triangle \<Rightarrow> Triangle" where
  "clear_vertices t = t\<lparr>vertices := []\<rparr>"

definition set_facet_normal :: "Triangle \<Rightarrow> Point \<Rightarrow> error + Triangle" where
  "set_facet_normal t normal =
     (if 1 - \<bar>norm_pt normal\<bar> < EPS then Inr (t\<lparr>facet_normal := normal\<rparr>)
      else (case unit_vector normal of
              Inl e \<Rightarrow> Inl e
            | Inr u \<Rightarrow> Inr (t\<lparr>facet_normal := u\<rparr>)))"

definition calculate_facet_normal :: "Triangle \<Rightarrow> error + Point" where
  "calculate_facet_normal t =
     (if length (vertices t) = 3 then
        (let vec1 = point_sub (vertices t ! 1) (vertices t ! 0);
             vec2 = point_sub (vertices t ! 2) (vertices t ! 0)
         in unit_vector (cross_product vec1 vec2))
      else Inl InsufficientVertices)"

text \<open>The diagnostics written to \<^verbatim>\<open>cerr\<close> are not modelled.\<close>

definition check_triangle :: "Triangle \<Rightarrow> error + bool" where
  "check_triangle t =
     (if length (vertices t) \<noteq> 3 then Inr False
      else (case calculate_facet_normal t of
              Inl e \<Rightarrow> Inl e
            | Inr n \<Rightarrow> if point_neq n (facet_normal t) then Inr False else Inr True))"

section \<open>TriangleMesh\<close>

definition TriangleMesh_new :: TriangleMesh where
  "TriangleMesh_new = \<lparr>triangles = [], triangle_count = 0, name = []\<rparr>"

definition add_triangle :: "TriangleMesh \<Rightarrow> Triangle \<Rightarrow> error + TriangleMesh" where
  "add_triangle m t =
     (case check_triangle t of
        Inl e \<Rightarrow> Inl e
      | Inr ok \<Rightarrow>
          if ok then Inr (m\<lparr>triangles := triangles m @ [t],
                            triangle_count := triangle_count m + 1\<rparr>)
          else Inl InvalidTriangle)"

definition set_name :: "TriangleMesh \<Rightarrow> string \<Rightarrow> TriangleMesh" where
  "set_name m n = m\<lparr>name := n\<rparr>"

definition get_triangle_count :: "TriangleMesh \<Rightarrow> int" where
  "get_triangle_count m = triangle_count m"

section \<open>STLParser\<close>

text \<open>
  \<^verbatim>\<open>std::stod\<close> is library code: it is a parameter of the model. It returns the value of
  the longest numeric prefix, throws \<^verbatim>\<open>std::invalid_argument\<close> when no conversion can be
  performed and \<^verbatim>\<open>std::out_of_range\<close> when the value does not fit a double.
\<close>

datatype stod_result = StodValue real | StodInvalidArgument | StodOutOfRange

datatype state = OUTSIDE | SOLID | FACET | NORMAL | NORMAL_COORD | OUTER | LOOP | END

text \<open>
  The \<^verbatim>\<open>try\<close> block of \<^verbatim>\<open>parse_coordinates\<close>: the three conversions run in order, the
  handler turns \<^verbatim>\<open>invalid_argument\<close> into the runtime error and nothing else.
\<close>

definition parse_coordinates ::
  "(string \<Rightarrow> stod_result) \<Rightarrow> string list \<Rightarrow> nat \<Rightarrow> error + Point" where
  "parse_coordinates stod tokens token_cnt =
     (if token_cnt + 2 < length tokens then
        (case stod (tokens ! token_cnt) of
           StodInvalidArgument \<Rightarrow> Inl CoordinateParseError
         | StodOutOfRange \<Rightarrow> Inl StdOutOfRange
         | StodValue coordx \<Rightarrow>
        (case stod (tokens ! (token_cnt + 1)) of
           StodInvalidArgument \<Rightarrow> Inl CoordinateParseError
         | StodOutOfRange \<Rightarrow> Inl StdOutOfRange
         | StodValue coordy \<Rightarrow>
        (case stod (tokens ! (token_cnt + 2)) of
           StodInvalidArgument \<Rightarrow> Inl CoordinateParseError
         | StodOutOfRange \<Rightarrow> Inl StdOutOfRange
         | StodValue coordz \<Rightarrow> Inr \<lparr>px = coordx, py = coordy, pz = coordz\<rparr>)))
      else Inl CoordinateParseError)"

text \<open>The local variables of the loop of \<^verbatim>\<open>to_triangle_mesh\<close>.\<close>

record config =
  st :: state
  cnt :: nat
  tri :: Triangle
  mesh_tmp :: TriangleMesh

text \<open>
  The \<^verbatim>\<open>switch\<close> of one iteration, for \<open>cnt c < length tokens\<close>; the \<^verbatim>\<open>cnt++\<close> that
  ends the iteration is in \<open>iteration\<close>.
\<close>

definition switch_state ::
  "(string \<Rightarrow> stod_result) \<Rightarrow> string list \<Rightarrow> config \<Rightarrow> error + config" where
  "switch_state stod tokens c =
     (case st c of
        OUTSIDE \<Rightarrow>
          if tokens ! cnt c = ''solid'' then
            if cnt c + 1 < length tokens then
              if tokens ! (cnt c + 1) = ''facet''
              then Inr (c\<lparr>mesh_tmp := set_name (mesh_tmp c) ''no name'', st := SOLID\<rparr>)
              else Inr (c\<lparr>mesh_tmp := set_name (mesh_tmp c) (tokens ! (cnt c + 1)),
                          cnt := cnt c + 1, st := SOLID\<rparr>)
            else Inl NoSolidName
          else Inr c
      | SOLID \<Rightarrow>
          if tokens ! cnt c = ''facet'' then Inr (c\<lparr>st := FACET\<rparr>)
          else if tokens ! cnt c = ''endsolid'' then Inr (c\<lparr>st := END\<rparr>)
          else Inl FacetOrEndsolidExpected
      | FACET \<Rightarrow>
          if tokens ! cnt c = ''normal'' then Inr (c\<lparr>st := NORMAL\<rparr>)
          else if tokens ! cnt c = ''endfacet'' then Inr (c\<lparr>st := SOLID\<rparr>)
          else Inl FacetNormalIncomplete
      | NORMAL \<Rightarrow>
          (case parse_coordinates stod tokens (cnt c) of
             Inl e \<Rightarrow> Inl e
           | Inr n \<Rightarrow>
               (case set_facet_normal (tri c) n of
                  Inl e \<Rightarrow> Inl e
                | Inr t \<Rightarrow> Inr (c\<lparr>tri := t, st := NORMAL_COORD, cnt := cnt c + 2\<rparr>)))
      | NORMAL_COORD \<Rightarrow>
          if tokens ! cnt c = ''outer'' then Inr (c\<lparr>st := OUTER\<rparr>)
          else Inl OuterLoopIncomplete
      | OUTER \<Rightarrow>
          if tokens ! cnt c = ''loop'' then Inr (c\<lparr>st := LOOP\<rparr>)
          else Inl OuterLoopIncomplete
      | LOOP \<Rightarrow>
          if tokens ! cnt c = ''vertex'' then
            (case parse_coordinates stod tokens (cnt c + 1) of
               Inl e \<Rightarrow> Inl e
             | Inr v \<Rightarrow>
                 (case add_vertex (tri c) v of
                    Inl e \<Rightarrow> Inl e
                  | Inr t \<Rightarrow> Inr (c\<lparr>tri := t, cnt := cnt c + 3\<rparr>)))
          else if tokens ! cnt c = ''endloop'' then
            (case check_triangle (tri c) of
               Inl e \<Rightarrow> Inl e
             | Inr ok \<Rightarrow>
                 if ok then
                   (case add_triangle (mesh_tmp c) (tri c) of
                      Inl e \<Rightarrow> Inl e
                    | Inr m \<Rightarrow>
                        Inr (c\<lparr>mesh_tmp := m, tri := clear_vertices (tri c), st := FACET\<rparr>))
                 else Inl InvalidTriangleAtEndloop)
          else Inl InvalidLoopSegment
      | END \<Rightarrow> Inr (c\<lparr>cnt := length tokens\<rparr>))"

definition iteration ::
  "(string \<Rightarrow> stod_result) \<Rightarrow> string list \<Rightarrow> config \<Rightarrow> error + config" where
  "iteration stod tokens c =
     (case switch_state stod tokens c of
        Inl e \<Rightarrow> Inl e
      | Inr c' \<Rightarrow> Inr (c'\<lparr>cnt := cnt c' + 1\<rparr>))"

text \<open>The \<^verbatim>\<open>while (cnt < tokens.size())\<close> loop.\<close>

function while_loop ::
  "(string \<Rightarrow> stod_result) \<Rightarrow> string list \<Rightarrow> config \<Rightarrow> error + config" where
  "while_loop stod tokens c =
     (if cnt c < length tokens then
        (case iteration stod tokens c of
           Inl e \<Rightarrow> Inl e
         | Inr c' \<Rightarrow> while_loop stod tokens c')
      else Inr c)"
  by pat_completeness auto
termination
proof (relation "measure (\<lambda>(stod, tokens, c). Suc (length tokens) - cnt c)")
  show "wf (measure (\<lambda>(stod, tokens, c). Suc (length tokens) - cnt c))"
    by simp
next
  fix stod :: "string \<Rightarrow> stod_result" and tokens :: "string list" and c c' :: config
  assume "cnt c < length tokens" and "iteration stod tokens c = Inr c'"
  then have "cnt c < cnt c'"
    by (auto simp: iteration_def switch_state_def
             split: sum.splits state.splits if_splits)
  with \<open>cnt c < length tokens\<close>
  show "((stod, tokens, c'), (stod, tokens, c))
          \<in> measure (\<lambda>(stod, tokens, c). Suc (length tokens) - cnt c)"
    by simp
qed

declare while_loop.simps [simp del]

text \<open>
  \<^verbatim>\<open>to_triangle_mesh(mesh)\<close> on the token vector \<open>tokens\<close>: the result is the exception
  that leaves the function, if any, and the caller's mesh afterwards.
\<close>

definition init_config :: config where
  "init_config = \<lparr>st = OUTSIDE, cnt = 0, tri = Triangle_new, mesh_tmp = TriangleMesh_new\<rparr>"

definition to_triangle_mesh ::
  "(string \<Rightarrow> stod_result) \<Rightarrow> string list \<Rightarrow> TriangleMesh \<Rightarrow> error option \<times> TriangleMesh" where
  "to_triangle_mesh stod tokens mesh =
     (case while_loop stod tokens init_config of
        Inl e \<Rightarrow> (Some e, mesh)
      | Inr c \<Rightarrow>
          if st c \<noteq> END then (Some UnterminatedSolid, mesh)
          else (None, mesh_tmp c))"

text \<open>
  The tokenisation at the head of \<^verbatim>\<open>to_triangle_mesh\<close>: \<^verbatim>\<open>istream_iterator<string>\<close>
  skips white space (the six characters of \<^verbatim>\<open>isspace\<close> in the C locale) and reads up
  to the next white space. \<open>tokens\<close> of \<open>to_triangle_mesh\<close> is its result.
\<close>

definition is_space :: "char \<Rightarrow> bool" where
  "is_space ch \<longleftrightarrow> ch = CHR '' '' \<or> ch = CHR 0x09 \<or> ch = CHR 0x0A
                   \<or> ch = CHR 0x0B \<or> ch = CHR 0x0C \<or> ch = CHR 0x0D"

fun tokenize_from :: "string \<Rightarrow> string \<Rightarrow> string list" where
  "tokenize_from cur [] = (if cur = [] then [] else [cur])"
| "tokenize_from cur (ch # cs) =
     (if is_space ch then
        (if cur = [] then tokenize_from [] cs else cur # tokenize_from [] cs)
      else tokenize_from (cur @ [ch]) cs)"

definition tokenize :: "string \<Rightarrow> string list" where
  "tokenize content = tokenize_from [] content"

text \<open>
  The invariant of \<^verbatim>\<open>TriangleMesh\<close>: the maintained count is the length of the
  sequence. (\<^verbatim>\<open>long\<close> is modelled as \<open>int\<close>: a count of \<open>2^63\<close> triangles is out of reach.)
\<close>

definition mesh_inv :: "TriangleMesh \<Rightarrow> bool" where
  "mesh_inv m \<longleftrightarrow> triangle_count m = int (length (triangles m))"

section \<open>Sample inputs\<close>

text \<open>
  A conversion table that agrees with \<^verbatim>\<open>std::stod\<close> on the tokens of the examples
  below: the listed decimal literals, \<^verbatim>\<open>1e999\<close> (beyond the range of a double) and
  the keywords and names, which start with no number.
\<close>

definition stod_sample :: "string \<Rightarrow> stod_result" where
  "stod_sample s =
     (if s = ''0'' then StodValue 0
      else if s = ''1'' then StodValue 1
      else if s = ''2'' then StodValue 2
      else if s = ''1e999'' then StodOutOfRange
      else StodInvalidArgument)"

definition origin :: Point where
  "origin = \<lparr>px = 0, py = 0, pz = 0\<rparr>"

text \<open>Three coincident vertices: a triangle that \<^verbatim>\<open>Triangle::add_vertex\<close> builds.\<close>

definition degenerate_triangle :: Triangle where
  "degenerate_triangle = \<lparr>vertices = [origin, origin, origin], facet_normal = origin\<rparr>"

text \<open>The facet of the end-to-end scenario, and a second one.\<close>

definition facet_a :: "string list" where
  "facet_a = [''facet'', ''normal'', ''0'', ''0'', ''1'', ''outer'', ''loop'',
              ''vertex'', ''0'', ''0'', ''0'',
              ''vertex'', ''1'', ''0'', ''0'',
              ''vertex'', ''0'', ''1'', ''0'',
              ''endloop'', ''endfacet'']"

definition solid_a :: "string list" where
  "solid_a = [''solid'', ''cube_face''] @ facet_a @ [''endsolid'']"

definition solid_b :: "string list" where
  "solid_b = [''solid'', ''second''] @ facet_a @ facet_a @ [''endsolid'']"

definition triangle_a :: Triangle where
  "triangle_a = \<lparr>vertices = [\<lparr>px = 0, py = 0, pz = 0\<rparr>, \<lparr>px = 1, py = 0, pz = 0\<rparr>,
                               \<lparr>px = 0, py = 1, pz = 0\<rparr>],
                  facet_normal = \<lparr>px = 0, py = 0, pz = 1\<rparr>\<rparr>"

definition mesh_a :: TriangleMesh where
  "mesh_a = \<lparr>triangles = [triangle_a], triangle_count = 1, name = ''cube_face''\<rparr>"

definition open_solid_a :: "string list" where
  "open_solid_a = [''solid'', ''cube_face''] @ facet_a"

definition mesh_old :: TriangleMesh where
  "mesh_old = \<lparr>triangles = [], triangle_count = 0, name = ''old''\<rparr>"

section \<open>Properties\<close>

subsection \<open>Unfolding the loop, evaluating the samples\<close>

lemma while_loop_done:
  "\<not> cnt c < length tokens \<Longrightarrow> while_loop stod tokens c = Inr c"
  by (subst while_loop.simps) simp

lemma while_loop_step:
  "cnt c < length tokens \<Longrightarrow>
   while_loop stod tokens c =
     (case iteration stod tokens c of
        Inl e \<Rightarrow> Inl e
      | Inr c' \<Rightarrow> while_loop stod tokens c')"
  by (subst while_loop.simps) simp

lemmas sample_eval =
  while_loop.simps iteration_def switch_state_def init_config_def parse_coordinates_def
  stod_sample_def set_facet_normal_def add_vertex_def check_triangle_def
  calculate_facet_normal_def add_triangle_def clear_vertices_def set_name_def point_sub_def
  cross_product_def unit_vector_def norm_pt_def EPS_def point_neq_def point_eq_def
  Triangle_new_def TriangleMesh_new_def facet_a_def solid_a_def solid_b_def triangle_a_def
  mesh_a_def mesh_old_def open_solid_a_def origin_def degenerate_triangle_def to_triangle_mesh_def

lemma sample_unterminated:
  "while_loop stod_sample ([''solid'', ''cube_face''] @ facet_a) init_config
     = Inr \<lparr>st = SOLID, cnt = 23, tri = clear_vertices triangle_a, mesh_tmp = mesh_a\<rparr>"
  by (simp add: sample_eval)

lemma sample_solid_a:
  "to_triangle_mesh stod_sample solid_a mesh = (None, mesh_a)"
  by (simp add: sample_eval)

lemma check_triangle_a: "check_triangle triangle_a = Inr True"
  by (simp add: sample_eval)

lemma check_triangle_degenerate: "check_triangle degenerate_triangle = Inl DegenerateVector"
  by (simp add: sample_eval)

subsection \<open>Geometry\<close>

lemma norm_pt_axis: "norm_pt \<lparr>px = a, py = 0, pz = 0\<rparr> = \<bar>a\<bar>"
  by (simp add: norm_pt_def)

lemma unit_vector_error: "unit_vector p = Inl e \<Longrightarrow> e = DegenerateVector"
  by (auto simp: unit_vector_def Let_def split: if_splits)

lemma check_triangle_error: "check_triangle t = Inl e \<Longrightarrow> e = DegenerateVector"
  by (auto simp: check_triangle_def calculate_facet_normal_def Let_def
           split: if_splits sum.splits dest: unit_vector_error)

text \<open>
  C1. The claim: whatever Point is passed to \<^verbatim>\<open>set_facet_normal\<close>, the stored facet
  normal has unit length within epsilon. The code compares \<open>1 - |norm|\<close>, not
  \<open>|1 - norm|\<close>, with epsilon: the vector \<open>(2, 0, 0)\<close> passes the test and is stored
  with norm 2, which is not within epsilon of 1.
\<close>

theorem set_facet_normal_stores_norm_two:
  "set_facet_normal Triangle_new \<lparr>px = 2, py = 0, pz = 0\<rparr>
     = Inr (Triangle_new\<lparr>facet_normal := \<lparr>px = 2, py = 0, pz = 0\<rparr>\<rparr>)
   \<and> norm_pt \<lparr>px = 2, py = 0, pz = 0\<rparr> = 2
   \<and> \<not> \<bar>norm_pt \<lparr>px = 2, py = 0, pz = 0\<rparr> - 1\<bar> < EPS"
  by (simp add: set_facet_normal_def norm_pt_axis EPS_def)

text \<open>
  C9. The claim: \<^verbatim>\<open>set_facet_normal\<close> stores its argument unchanged whenever
  \<open>1 - |norm p| < 0.001\<close>, which holds for every vector of norm at least 0.999. The
  comparison is strict: at norm exactly 0.999 the difference is 0.001, the test fails
  and the vector is normalised.
\<close>

theorem set_facet_normal_boundary_cex:
  "0.999 \<le> norm_pt \<lparr>px = 0.999, py = 0, pz = 0\<rparr>
   \<and> set_facet_normal Triangle_new \<lparr>px = 0.999, py = 0, pz = 0\<rparr>
       = Inr (Triangle_new\<lparr>facet_normal := \<lparr>px = 1, py = 0, pz = 0\<rparr>\<rparr>)
   \<and> set_facet_normal Triangle_new \<lparr>px = 0.999, py = 0, pz = 0\<rparr>
       \<noteq> Inr (Triangle_new\<lparr>facet_normal := \<lparr>px = 0.999, py = 0, pz = 0\<rparr>\<rparr>)"
  by (simp add: set_facet_normal_def norm_pt_axis EPS_def unit_vector_def Triangle_new_def)

text \<open>
  C9, amended: \<^verbatim>\<open>set_facet_normal\<close> stores its argument unchanged, without any
  normalisation, whenever \<open>1 - |norm p| < 0.001\<close>, and that holds for every vector of
  norm strictly greater than 0.999, with no upper bound.
\<close>

theorem set_facet_normal_stores_unchanged:
  "(1 - \<bar>norm_pt p\<bar> < EPS \<longrightarrow> set_facet_normal t p = Inr (t\<lparr>facet_normal := p\<rparr>))
   \<and> (0.999 < norm_pt p \<longrightarrow> 1 - \<bar>norm_pt p\<bar> < EPS)"
  by (simp add: set_facet_normal_def EPS_def)

text \<open>A normal of magnitude 2 is stored as it is.\<close>

theorem set_facet_normal_stores_unchanged_witness:
  "0.999 < norm_pt \<lparr>px = 0, py = 2, pz = 0\<rparr>
   \<and> 1 - \<bar>norm_pt \<lparr>px = 0, py = 2, pz = 0\<rparr>\<bar> < EPS
   \<and> set_facet_normal Triangle_new \<lparr>px = 0, py = 2, pz = 0\<rparr>
       = Inr (Triangle_new\<lparr>facet_normal := \<lparr>px = 0, py = 2, pz = 0\<rparr>\<rparr>)"
proof -
  have n: "norm_pt \<lparr>px = 0, py = 2, pz = 0\<rparr> = 2"
    by (simp add: norm_pt_def)
  then have h: "0.999 < norm_pt \<lparr>px = 0, py = 2, pz = 0\<rparr>"
    by simp
  from set_facet_normal_stores_unchanged [of "\<lparr>px = 0, py = 2, pz = 0\<rparr>" Triangle_new] h
  show ?thesis by blast
qed

text \<open>
  C4. The claim: \<^verbatim>\<open>check_triangle\<close> never throws. With three vertices it calls
  \<^verbatim>\<open>calculate_facet_normal\<close>, whose \<^verbatim>\<open>unit_vector\<close> throws when the cross product
  of the edges is shorter than epsilon: three coincident vertices.
\<close>

theorem check_triangle_throws_cex:
  "length (vertices degenerate_triangle) = 3
   \<and> check_triangle degenerate_triangle = Inl DegenerateVector"
  by (simp add: sample_eval)

text \<open>
  C4, amended: \<^verbatim>\<open>check_triangle\<close> throws (the error of \<^verbatim>\<open>unit_vector\<close>) exactly when
  the triangle has three vertices and the cross product of its edges \<open>v1 - v0\<close> and
  \<open>v2 - v0\<close> has norm below epsilon; in every other case it does not throw and returns
  valid if and only if the vertex count is 3 and \<^verbatim>\<open>calculate_facet_normal()\<close> equals the
  stored facet normal under the tolerance-based equality.
\<close>

theorem check_triangle_result:
  "check_triangle t =
     (if length (vertices t) = 3
         \<and> \<bar>norm_pt (cross_product (point_sub (vertices t ! 1) (vertices t ! 0))
                                   (point_sub (vertices t ! 2) (vertices t ! 0)))\<bar> < EPS
      then Inl DegenerateVector
      else Inr (length (vertices t) = 3
                \<and> (\<exists>n. calculate_facet_normal t = Inr n \<and> point_eq n (facet_normal t))))"
  by (auto simp: check_triangle_def calculate_facet_normal_def unit_vector_def Let_def
                 point_neq_def)

theorem check_triangle_result_witness:
  "check_triangle triangle_a = Inr True
   \<and> length (vertices triangle_a) = 3
   \<and> calculate_facet_normal triangle_a = Inr \<lparr>px = 0, py = 0, pz = 1\<rparr>
   \<and> point_eq \<lparr>px = 0, py = 0, pz = 1\<rparr> (facet_normal triangle_a)"
  using check_triangle_result [of triangle_a]
  by (simp add: sample_eval)

subsection \<open>Coordinates\<close>

lemma parse_coordinates_short:
  "\<not> token_cnt + 2 < length tokens \<Longrightarrow>
   parse_coordinates stod tokens token_cnt = Inl CoordinateParseError"
  by (simp add: parse_coordinates_def)

lemma parse_coordinates_values:
  "token_cnt + 2 < length tokens \<Longrightarrow>
   stod (tokens ! token_cnt) = StodValue a \<Longrightarrow>
   stod (tokens ! (token_cnt + 1)) = StodValue b \<Longrightarrow>
   stod (tokens ! (token_cnt + 2)) = StodValue d \<Longrightarrow>
   parse_coordinates stod tokens token_cnt = Inr \<lparr>px = a, py = b, pz = d\<rparr>"
  by (simp add: parse_coordinates_def)

lemma parse_coordinates_invalid_first:
  "stod (tokens ! token_cnt) = StodInvalidArgument \<Longrightarrow>
   parse_coordinates stod tokens token_cnt = Inl CoordinateParseError"
  by (simp add: parse_coordinates_def)

text \<open>
  C5. The claim: \<^verbatim>\<open>parse_coordinates\<close> fails with the coordinate error when fewer
  than three tokens remain or one of them is not a valid number, and returns the Point
  otherwise. The handler catches \<^verbatim>\<open>invalid_argument\<close> only: on the token \<^verbatim>\<open>1e999\<close>
  \<^verbatim>\<open>std::stod\<close> throws \<^verbatim>\<open>out_of_range\<close>, which leaves the function as it is, neither the
  coordinate error nor a Point.
\<close>

theorem parse_coordinates_out_of_range:
  "parse_coordinates stod_sample [''1e999'', ''0'', ''0''] 0 = Inl StdOutOfRange"
  by (simp add: parse_coordinates_def stod_sample_def)

subsection \<open>The mesh\<close>

text \<open>
  C6. The claim: \<^verbatim>\<open>add_triangle\<close> appends and counts exactly when \<^verbatim>\<open>check_triangle\<close>
  reports valid and fails with the invalid-triangle error otherwise. For three
  coincident vertices \<^verbatim>\<open>check_triangle\<close> reports nothing: it throws, and the failure of
  \<^verbatim>\<open>add_triangle\<close> is that of \<^verbatim>\<open>unit_vector\<close>.
\<close>

theorem add_triangle_degenerate_cex:
  "check_triangle degenerate_triangle \<noteq> Inr True
   \<and> add_triangle TriangleMesh_new degenerate_triangle = Inl DegenerateVector
   \<and> add_triangle TriangleMesh_new degenerate_triangle \<noteq> Inl InvalidTriangle"
  by (simp add: add_triangle_def check_triangle_degenerate)

text \<open>
  C6, amended: \<^verbatim>\<open>add_triangle(t)\<close> appends \<open>t\<close> and increments the count exactly when
  \<^verbatim>\<open>t.check_triangle()\<close> returns valid; it fails with the invalid-triangle error when
  \<^verbatim>\<open>check_triangle\<close> returns invalid and with the error of \<^verbatim>\<open>unit_vector\<close> when
  \<^verbatim>\<open>check_triangle\<close> throws, and a failure returns no new mesh (the mesh is unchanged).
  The count equals the length of the sequence in a new mesh and after \<^verbatim>\<open>add_triangle\<close>
  and \<^verbatim>\<open>set_name\<close>.
\<close>

theorem add_triangle_result:
  "(check_triangle t = Inr True \<longrightarrow>
      add_triangle m t = Inr (m\<lparr>triangles := triangles m @ [t],
                                 triangle_count := triangle_count m + 1\<rparr>))
   \<and> (check_triangle t = Inr False \<longrightarrow> add_triangle m t = Inl InvalidTriangle)
   \<and> (check_triangle t = Inl e \<longrightarrow> e = DegenerateVector \<and> add_triangle m t = Inl e)
   \<and> (add_triangle m t = Inr m' \<longrightarrow> check_triangle t = Inr True)
   \<and> (mesh_inv m \<and> add_triangle m t = Inr m' \<longrightarrow> mesh_inv m')
   \<and> mesh_inv TriangleMesh_new
   \<and> (mesh_inv m \<longrightarrow> mesh_inv (set_name m n))
   \<and> get_triangle_count m = triangle_count m"
proof -
  have "check_triangle t = Inl e \<longrightarrow> e = DegenerateVector"
    by (auto dest: check_triangle_error)
  moreover have "add_triangle m t = Inr m' \<longrightarrow> check_triangle t = Inr True"
    by (auto simp: add_triangle_def split: sum.splits if_splits)
  moreover have "mesh_inv m \<and> add_triangle m t = Inr m' \<longrightarrow> mesh_inv m'"
    by (auto simp: add_triangle_def mesh_inv_def split: sum.splits if_splits)
  ultimately show ?thesis
    by (simp add: add_triangle_def mesh_inv_def TriangleMesh_new_def set_name_def
                  get_triangle_count_def)
qed

theorem add_triangle_result_witness:
  "check_triangle triangle_a = Inr True
   \<and> mesh_inv TriangleMesh_new
   \<and> add_triangle TriangleMesh_new triangle_a
       = Inr \<lparr>triangles = [triangle_a], triangle_count = 1, name = []\<rparr>
   \<and> mesh_inv \<lparr>triangles = [triangle_a], triangle_count = 1, name = []\<rparr>"
proof -
  let ?m = "\<lparr>triangles = [triangle_a], triangle_count = 1, name = []\<rparr>"
  note r = add_triangle_result [of triangle_a TriangleMesh_new DegenerateVector ?m "[]"]
  from r check_triangle_a
  have a: "add_triangle TriangleMesh_new triangle_a = Inr ?m"
    by (simp add: TriangleMesh_new_def)
  moreover from r have i: "mesh_inv TriangleMesh_new" by blast
  moreover from r a i have "mesh_inv ?m" by blast
  ultimately show ?thesis using check_triangle_a by simp
qed

subsection \<open>The state machine: tokens after the end of the solid\<close>









subsection \<open>The state machine: the end of the loop\<close>



















text \<open>
  C3. \<^verbatim>\<open>to_triangle_mesh\<close> succeeds exactly when the loop ends in the state END, and
  then the caller's mesh is the working mesh; on every failure the caller's mesh is the
  one passed in.
\<close>

theorem to_triangle_mesh_atomic:
  "(fst (to_triangle_mesh stod tokens mesh) \<noteq> None \<longrightarrow>
      snd (to_triangle_mesh stod tokens mesh) = mesh)
   \<and> (fst (to_triangle_mesh stod tokens mesh) = None \<longrightarrow>
        (\<exists>c. while_loop stod tokens init_config = Inr c \<and> st c = END
             \<and> snd (to_triangle_mesh stod tokens mesh) = mesh_tmp c))
   \<and> ((\<exists>c. while_loop stod tokens init_config = Inr c \<and> st c = END) \<longrightarrow>
        fst (to_triangle_mesh stod tokens mesh) = None)"
  by (auto simp: to_triangle_mesh_def split: sum.splits)

text \<open>
  A parse that fails after its working mesh has received a triangle leaves the caller's
  mesh alone; the same tokens followed by \<^verbatim>\<open>endsolid\<close> replace it.
\<close>

theorem to_triangle_mesh_atomic_witness:
  "fst (to_triangle_mesh stod_sample ([''solid'', ''cube_face''] @ facet_a) mesh_old) \<noteq> None
   \<and> snd (to_triangle_mesh stod_sample ([''solid'', ''cube_face''] @ facet_a) mesh_old)
       = mesh_old
   \<and> fst (to_triangle_mesh stod_sample solid_a mesh_old) = None
   \<and> snd (to_triangle_mesh stod_sample solid_a mesh_old) = mesh_a"
proof -
  have f: "fst (to_triangle_mesh stod_sample ([''solid'', ''cube_face''] @ facet_a) mesh_old)
             \<noteq> None"
    using sample_unterminated by (simp add: to_triangle_mesh_def)
  from to_triangle_mesh_atomic [of stod_sample "[''solid'', ''cube_face''] @ facet_a" mesh_old] f
  have "snd (to_triangle_mesh stod_sample ([''solid'', ''cube_face''] @ facet_a) mesh_old)
          = mesh_old"
    by blast
  with f show ?thesis by (simp add: sample_solid_a)
qed

subsection \<open>The state machine: tokens before the solid\<close>

lemma parse_coordinates_shift:
  "parse_coordinates stod (junk @ tokens) (length junk + i) = parse_coordinates stod tokens i"
  by (auto simp: parse_coordinates_def nth_append add.assoc split: stod_result.splits)

lemma parse_coordinates_shift_Suc:
  "parse_coordinates stod (junk @ tokens) (Suc (length junk + i))
     = parse_coordinates stod tokens (Suc i)"
  using parse_coordinates_shift [of stod junk tokens "Suc i"] by simp

lemma switch_state_shift:
  assumes "cnt c < length tokens"
  shows "switch_state stod (junk @ tokens) (c\<lparr>cnt := length junk + cnt c\<rparr>)
         = map_sum id (\<lambda>d. d\<lparr>cnt := length junk + cnt d\<rparr>) (switch_state stod tokens c)"
  using assms
  by (cases "st c")
     (auto simp: switch_state_def nth_append parse_coordinates_shift
                 parse_coordinates_shift_Suc
           split: sum.splits)

lemma iteration_shift:
  assumes "cnt c < length tokens"
  shows "iteration stod (junk @ tokens) (c\<lparr>cnt := length junk + cnt c\<rparr>)
         = map_sum id (\<lambda>d. d\<lparr>cnt := length junk + cnt d\<rparr>) (iteration stod tokens c)"
  by (auto simp: iteration_def switch_state_shift [OF assms] split: sum.splits)

lemma while_loop_shift:
  "while_loop stod (junk @ tokens) (c\<lparr>cnt := length junk + cnt c\<rparr>)
     = map_sum id (\<lambda>d. d\<lparr>cnt := length junk + cnt d\<rparr>) (while_loop stod tokens c)"
proof (induction stod tokens c rule: while_loop.induct)
  case (1 stod tokens c)
  show ?case
  proof (cases "cnt c < length tokens")
    case False
    then show ?thesis
      by (simp add: while_loop_done)
  next
    case True
    show ?thesis
    proof (cases "iteration stod tokens c")
      case (Inl e)
      with True iteration_shift [OF True, of stod junk] show ?thesis
        by (simp add: while_loop_step)
    next
      case (Inr c1)
      with True iteration_shift [OF True, of stod junk] "1.IH" [OF True Inr] show ?thesis
        by (simp add: while_loop_step)
    qed
  qed
qed

lemma iteration_OUTSIDE_skip:
  "st c = OUTSIDE \<Longrightarrow> tokens ! cnt c \<noteq> ''solid'' \<Longrightarrow>
   iteration stod tokens c = Inr (c\<lparr>cnt := cnt c + 1\<rparr>)"
  by (simp add: iteration_def switch_state_def)

lemma while_loop_skip:
  assumes "\<forall>t \<in> set junk. t \<noteq> ''solid''" and "st c = OUTSIDE" and "cnt c \<le> length junk"
  shows "while_loop stod (junk @ tokens) c
           = while_loop stod (junk @ tokens) (c\<lparr>cnt := length junk\<rparr>)"
  using assms(2,3)
proof (induction "length junk - cnt c" arbitrary: c)
  case 0
  then have "c\<lparr>cnt := length junk\<rparr> = c" by simp
  then show ?case by simp
next
  case (Suc k)
  then have lt: "cnt c < length junk" by simp
  with assms(1) have ns: "(junk @ tokens) ! cnt c \<noteq> ''solid''"
    by (simp add: nth_append)
  have it: "iteration stod (junk @ tokens) c = Inr (c\<lparr>cnt := Suc (cnt c)\<rparr>)"
    using iteration_OUTSIDE_skip [OF Suc.prems(1) ns] by simp
  have "while_loop stod (junk @ tokens) c
          = while_loop stod (junk @ tokens) (c\<lparr>cnt := Suc (cnt c)\<rparr>)"
    using lt it by (simp add: while_loop_step)
  also have "\<dots> = while_loop stod (junk @ tokens) (c\<lparr>cnt := Suc (cnt c), cnt := length junk\<rparr>)"
    using Suc.hyps(2) Suc.prems lt by (intro Suc.hyps(1)) simp_all
  finally show ?case by simp
qed

text \<open>
  C10. In the state OUTSIDE a token other than \<^verbatim>\<open>solid\<close> is passed over without an
  error, and tokens other than \<^verbatim>\<open>solid\<close> in front of a token sequence change neither
  the error nor the mesh of \<^verbatim>\<open>to_triangle_mesh\<close>.
\<close>

theorem outside_skips_tokens:
  "(st c = OUTSIDE \<and> cnt c < length tokens \<and> tokens ! cnt c \<noteq> ''solid'' \<longrightarrow>
      iteration stod tokens c = Inr (c\<lparr>cnt := cnt c + 1\<rparr>))
   \<and> ((\<forall>t \<in> set junk. t \<noteq> ''solid'') \<longrightarrow>
        to_triangle_mesh stod (junk @ tokens) mesh = to_triangle_mesh stod tokens mesh)"
proof (intro conjI impI)
  assume "st c = OUTSIDE \<and> cnt c < length tokens \<and> tokens ! cnt c \<noteq> ''solid''"
  then show "iteration stod tokens c = Inr (c\<lparr>cnt := cnt c + 1\<rparr>)"
    by (simp add: iteration_OUTSIDE_skip)
next
  assume nos: "\<forall>t \<in> set junk. t \<noteq> ''solid''"
  have "while_loop stod (junk @ tokens) init_config
          = while_loop stod (junk @ tokens) (init_config\<lparr>cnt := length junk\<rparr>)"
    using nos by (intro while_loop_skip) (simp_all add: init_config_def)
  also have "\<dots> = map_sum id (\<lambda>d. d\<lparr>cnt := length junk + cnt d\<rparr>)
                      (while_loop stod tokens init_config)"
    using while_loop_shift [of stod junk tokens init_config] by (simp add: init_config_def)
  finally show "to_triangle_mesh stod (junk @ tokens) mesh = to_triangle_mesh stod tokens mesh"
    by (cases "while_loop stod tokens init_config") (simp_all add: to_triangle_mesh_def)
qed

theorem outside_skips_tokens_witness:
  "''solid'' \<notin> set [''junk'', ''endsolid'', ''1'']
   \<and> to_triangle_mesh stod_sample ([''junk'', ''endsolid'', ''1''] @ solid_a) mesh_old
       = (None, mesh_a)
   \<and> iteration stod_sample [''junk'', ''solid''] init_config = Inr (init_config\<lparr>cnt := 1\<rparr>)"
proof -
  have h: "\<forall>t \<in> set [''junk'', ''endsolid'', ''1'']. t \<noteq> ''solid''" by simp
  have k: "st init_config = OUTSIDE \<and> cnt init_config < length [''junk'', ''solid'']
             \<and> [''junk'', ''solid''] ! cnt init_config \<noteq> ''solid''"
    by (simp add: init_config_def)
  note r = outside_skips_tokens [of init_config "[''junk'', ''solid'']" stod_sample]
  from r [of "[]" mesh_old] k
  have "iteration stod_sample [''junk'', ''solid''] init_config = Inr (init_config\<lparr>cnt := 1\<rparr>)"
    by (simp add: init_config_def)
  moreover
  from outside_skips_tokens [of init_config solid_a stod_sample
         "[''junk'', ''endsolid'', ''1'']" mesh_old] h
  have "to_triangle_mesh stod_sample ([''junk'', ''endsolid'', ''1''] @ solid_a) mesh_old
          = to_triangle_mesh stod_sample solid_a mesh_old"
    by blast
  ultimately show ?thesis by (simp add: sample_solid_a)
qed

text \<open>
  C2. The claim: a token sequence whose first token is not \<^verbatim>\<open>solid\<close> fails with a
  grammar violation. The case OUTSIDE is the only one of the keyword states without a
  branch that throws: the token \<^verbatim>\<open>junk\<close> in front of a well-formed solid is passed
  over and the mesh is returned.
\<close>

theorem leading_token_accepted:
  "hd ([''junk''] @ solid_a) \<noteq> ''solid''
   \<and> to_triangle_mesh stod_sample ([''junk''] @ solid_a) mesh_old = (None, mesh_a)"
  by (simp add: sample_eval)

text \<open>The empty token sequence fails after the loop, with the error of that place.\<close>

lemma empty_input_unterminated:
  "to_triangle_mesh stod [] mesh = (Some UnterminatedSolid, mesh)
   \<and> \<not> grammar_violation UnterminatedSolid"
  by (simp add: to_triangle_mesh_def while_loop_done init_config_def)

subsection \<open>Tokens\<close>

lemma tokenize_from_white_space:
  "\<forall>ch \<in> set content. is_space ch \<Longrightarrow> tokenize_from [] content = []"
  by (induction content) simp_all

lemma tokenize_white_space:
  "\<forall>ch \<in> set content. is_space ch \<Longrightarrow> tokenize content = []"
  by (simp add: tokenize_def tokenize_from_white_space)

end
